theory Spec2Isabelle
  imports Main
begin

section \<open>JavaScript values and objects\<close>

text \<open>
  The values that reach \<^verbatim>\<open>_fetch\<close>. Only the distinctions the code makes are kept:
  \<^verbatim>\<open>typeof v === 'function'\<close>, \<^verbatim>\<open>v == null\<close>, \<^verbatim>\<open>typeof v === 'boolean'\<close>,
  \<^verbatim>\<open>v instanceof Headers\<close>, \<^verbatim>\<open>v instanceof ReadableStream\<close> and truthiness.
  A \<^verbatim>\<open>Headers\<close> instance is the list of pairs its \<^verbatim>\<open>entries()\<close> yields; a \<^verbatim>\<open>Map\<close> also
  has \<^verbatim>\<open>entries()\<close> but is not an instance of \<^verbatim>\<open>Headers\<close>. A \<^verbatim>\<open>ReadableStream\<close> is what
  its reader delivers: the result of the \<open>i\<close>-th \<^verbatim>\<open>read()\<close>, either a chunk (given as
  the text it decodes to) or \<^verbatim>\<open>None\<close> for \<^verbatim>\<open>done\<close>; a stream need not ever report
  \<^verbatim>\<open>done\<close>.
\<close>

datatype jsval =
    Undefined
  | Null
  | Boolean bool
  | Num int
  | Str string
  | Func nat
  | Plain "string \<rightharpoonup> string"
  | HeadersObj "(string \<times> string) list"
  | MapObj "(string \<times> string) list"
  | StreamObj "nat \<Rightarrow> string option"
  | Opaque nat

type_synonym obj = "string \<rightharpoonup> jsval"

fun truthy :: "jsval \<Rightarrow> bool" where
  "truthy Undefined = False"
| "truthy Null = False"
| "truthy (Boolean b) = b"
| "truthy (Num n) = (n \<noteq> 0)"
| "truthy (Str s) = (s \<noteq> [])"
| "truthy _ = True"

fun is_function :: "jsval \<Rightarrow> bool" where
  "is_function (Func _) = True"
| "is_function _ = False"

fun loosely_null :: "jsval \<Rightarrow> bool" where
  "loosely_null Undefined = True"
| "loosely_null Null = True"
| "loosely_null _ = False"

text \<open>Reading a property: a missing key reads as \<^verbatim>\<open>undefined\<close>.\<close>

definition get_prop :: "obj \<Rightarrow> string \<Rightarrow> jsval" where
  "get_prop c k = (case c k of None \<Rightarrow> Undefined | Some v \<Rightarrow> v)"

section \<open>The module-level default configuration\<close>

definition httpConfig :: obj where
  "httpConfig =
     [''headers'' \<mapsto> Plain Map.empty,
      ''timeout'' \<mapsto> Num 5000,
      ''agent'' \<mapsto> Null,
      ''auth'' \<mapsto> Null,
      ''body'' \<mapsto> Null,
      ''method'' \<mapsto> Str ''GET'',
      ''onData'' \<mapsto> Null,
      ''silent'' \<mapsto> Boolean False,
      ''signal'' \<mapsto> Null,
      ''agent'' \<mapsto> Null]"

section \<open>FetchError and the call's Promise\<close>

datatype fetch_error = FetchError (message: string) (status: jsval) (statusText: string)

record response =
  statusCode :: nat
  statusMessage :: string
  decoded :: "string option"

text \<open>
  \<^verbatim>\<open>decoded\<close> is the \<^verbatim>\<open>data\<close> string captured by the five closures
  (\<^verbatim>\<open>json\<close>, \<^verbatim>\<open>text\<close>, \<^verbatim>\<open>blob\<close>, \<^verbatim>\<open>arrayBuffer\<close>, \<^verbatim>\<open>formData\<close>) that the
  \<^verbatim>\<open>'end'\<close> handler attaches; it is \<^verbatim>\<open>None\<close> while they are not attached.
  \<^verbatim>\<open>res.text()\<close> returns that string.
\<close>

definition text_of :: "response \<Rightarrow> string option" where
  "text_of r = decoded r"

datatype promise = Pending | Resolved response | Rejected fetch_error

text \<open>A Promise settles once: \<^verbatim>\<open>resolve\<close> and \<^verbatim>\<open>reject\<close> on a settled one do nothing.\<close>

definition resolve :: "response \<Rightarrow> promise \<Rightarrow> promise" where
  "resolve r p = (if p = Pending then Resolved r else p)"

definition reject :: "fetch_error \<Rightarrow> promise \<Rightarrow> promise" where
  "reject e p = (if p = Pending then Rejected e else p)"

section \<open>copyProperties and ReadStream\<close>

text \<open>
  \<^verbatim>\<open>for (let key in source)\<close> visits the enumerable properties of \<^verbatim>\<open>source\<close>; the
  source object is given as the list of those (key, value) pairs in visiting order.
\<close>

fun copyProperties :: "obj \<Rightarrow> (string \<times> jsval) list \<Rightarrow> obj" where
  "copyProperties target [] = target"
| "copyProperties target ((key, v) # source) =
     (if is_function v \<or> loosely_null v then copyProperties target source
      else copyProperties (target(key \<mapsto> v)) source)"

text \<open>
  The loop of \<^verbatim>\<open>ReadStream\<close> runs until the reader reports \<^verbatim>\<open>done\<close>; the result is
  \<^verbatim>\<open>None\<close> when it never does. The second argument counts the reads made so far.
\<close>

partial_function (option) ReadStream_loop ::
  "(nat \<Rightarrow> string option) \<Rightarrow> nat \<Rightarrow> string \<Rightarrow> string option" where
  "ReadStream_loop reader i result =
     (case reader i of
        None \<Rightarrow> Some result
      | Some v \<Rightarrow> ReadStream_loop reader (Suc i) (result @ v))"

definition ReadStream :: "(nat \<Rightarrow> string option) \<Rightarrow> string option" where
  "ReadStream stream = ReadStream_loop stream 0 []"

text \<open>The stream that delivers the given chunks and then reports \<^verbatim>\<open>done\<close>.\<close>

definition of_chunks :: "string list \<Rightarrow> nat \<Rightarrow> string option" where
  "of_chunks chunks i = (if i < length chunks then Some (chunks ! i) else None)"

text \<open>\<^verbatim>\<open>Object.fromEntries\<close>: the pairs are stored in order, a later pair replacing an
  earlier one with the same key.\<close>

definition fromEntries :: "(string \<times> string) list \<Rightarrow> (string \<rightharpoonup> string)" where
  "fromEntries es = fold (\<lambda>(k, v) m. m(k \<mapsto> v)) es Map.empty"

section \<open>Inputs\<close>

record url =
  protocol :: string
  hostname :: string
  port :: string
  pathname :: string
  search :: string
  hash :: string

text \<open>
  A \<^verbatim>\<open>Request\<close> is its \<^verbatim>\<open>url\<close> string, the enumerable properties the instance has of its
  own, and the further enumerable properties it inherits (on the platform \<^verbatim>\<open>method\<close>,
  \<^verbatim>\<open>headers\<close>, \<^verbatim>\<open>body\<close> and the like are accessors of \<^verbatim>\<open>Request.prototype\<close>, as \<^verbatim>\<open>url\<close>
  is). \<^verbatim>\<open>for ... in\<close> visits the own ones, then the inherited ones.
\<close>

datatype request =
  Request (request_url: string) (own_fields: "(string \<times> jsval) list")
    (inherited_fields: "(string \<times> jsval) list")

definition enumerable :: "request \<Rightarrow> (string \<times> jsval) list" where
  "enumerable r = own_fields r @ (''url'', Str (request_url r)) # inherited_fields r"

text \<open>Values that are neither a string, nor a \<^verbatim>\<open>URL\<close>, nor a \<^verbatim>\<open>Request\<close>.\<close>

datatype other = NumberV int | BooleanV bool | NullV | UndefinedV | ObjectV obj

datatype input = RequestIn request | StringIn string | UrlIn url | OtherIn other

section \<open>The executor of fetch\<close>

datatype transport = Http | Https

datatype ref = HttpConfig | Obj nat

type_synonym store = "ref \<Rightarrow> obj"

text \<open>
  \<^verbatim>\<open>url.protocol\<close> in the branch where \<^verbatim>\<open>url\<close> is a string primitive: strings have
  no property of that name.
\<close>

definition string_protocol :: "string \<Rightarrow> jsval" where
  "string_protocol s = Undefined"

definition startsWith :: "string \<Rightarrow> string \<Rightarrow> bool" where
  "startsWith s p = (take (length p) s = p)"

text \<open>
  Lines 84--96. \<^verbatim>\<open>new URL\<close> is the platform's parser, a parameter \<open>parse\<close> that
  returns \<^verbatim>\<open>None\<close> where the constructor throws. The result is \<^verbatim>\<open>None\<close> when the
  executor throws here; otherwise the store, the Promise, and \<^verbatim>\<open>_url\<close> with
  \<^verbatim>\<open>protocol\<close> (both left undefined by the last branch).
\<close>

definition resolve_input ::
  "(string \<Rightarrow> url option) \<Rightarrow> input \<Rightarrow> ref \<Rightarrow> store \<Rightarrow> promise
     \<Rightarrow> (store \<times> promise \<times> (url \<times> transport) option) option" where
  "resolve_input parse inp config st p =
     (case inp of
        RequestIn r \<Rightarrow>
          (case parse (request_url r) of
             None \<Rightarrow> None
           | Some u \<Rightarrow>
               Some (st(config := copyProperties (st config) (enumerable r)), p,
                     Some (u, if startsWith (request_url r) ''https'' then Https else Http)))
      | StringIn s \<Rightarrow>
          (case parse s of
             None \<Rightarrow> None
           | Some u \<Rightarrow>
               Some (st, p, Some (u, if string_protocol s = Str ''https:'' then Https else Http)))
      | UrlIn u \<Rightarrow>
          Some (st, p, Some (u, if protocol u = ''https:'' then Https else Http))
      | OtherIn v \<Rightarrow>
          Some (st, reject (FetchError ''Invalid URL'' (Num 400) ''Bad Request'') p, None))"

text \<open>Lines 98--100.\<close>

definition convert_headers :: "obj \<Rightarrow> obj" where
  "convert_headers c =
     (case get_prop c ''headers'' of
        HeadersObj es \<Rightarrow> c(''headers'' \<mapsto> Plain (fromEntries es))
      | _ \<Rightarrow> c)"

text \<open>Lines 102--104; the empty string is falsy.\<close>

definition request_path :: "url \<Rightarrow> string" where
  "request_path u =
     (let path = pathname u;
          path = (if search u \<noteq> [] then path @ search u else path);
          path = (if hash u \<noteq> [] then path @ hash u else path)
      in path)"

text \<open>Line 106; \<^verbatim>\<open>None\<close> when the \<^verbatim>\<open>await\<close> never completes.\<close>

definition drain_body :: "obj \<Rightarrow> obj option" where
  "drain_body c =
     (case get_prop c ''body'' of
        StreamObj stream \<Rightarrow>
          (case ReadStream stream of
             None \<Rightarrow> None
           | Some result \<Rightarrow> Some (c(''body'' \<mapsto> Str result)))
      | _ \<Rightarrow> Some c)"

text \<open>Line 108.\<close>

definition strip_bodyUsed :: "obj \<Rightarrow> obj" where
  "strip_bodyUsed c =
     (case get_prop c ''bodyUsed'' of
        Boolean b \<Rightarrow> c(''bodyUsed'' := None)
      | _ \<Rightarrow> c)"

text \<open>
  What \<^verbatim>\<open>protocol.request\<close> is called with (lines 110--117): the transport, the options
  object, and the two fields kept back by the destructuring.
\<close>

record issued =
  via :: transport
  options :: obj
  silent :: jsval
  onData :: jsval

definition request_options :: "url \<Rightarrow> string \<Rightarrow> obj \<Rightarrow> obj" where
  "request_options u path c =
     [''hostname'' \<mapsto> Str (hostname u), ''port'' \<mapsto> Str (port u), ''path'' \<mapsto> Str path]
       ++ (c |` (- {''silent'', ''onData''}))"

text \<open>
  The executor up to \<^verbatim>\<open>req.end()\<close>. The second argument is the \<^verbatim>\<open>config\<close> argument:
  \<^verbatim>\<open>None\<close> when it is omitted, so that the default parameter binds \<^verbatim>\<open>config\<close> to the
  module-level \<^verbatim>\<open>httpConfig\<close> object itself. The executor is an \<^verbatim>\<open>async\<close> function: an
  exception thrown in it does not settle the Promise, and no request is issued; nor is
  one issued when the body stream never ends.
\<close>

definition config_ref :: "nat option \<Rightarrow> ref" where
  "config_ref cfg = (case cfg of None \<Rightarrow> HttpConfig | Some a \<Rightarrow> Obj a)"

definition fetch ::
  "(string \<Rightarrow> url option) \<Rightarrow> input \<Rightarrow> nat option \<Rightarrow> store \<Rightarrow> store \<times> promise \<times> issued option" where
  "fetch parse inp cfg st =
     (let config = config_ref cfg in
      case resolve_input parse inp config st Pending of
        None \<Rightarrow> (st, Pending, None)
      | Some (st1, p, target) \<Rightarrow>
          (let st2 = st1(config := convert_headers (st1 config)) in
           case target of
             None \<Rightarrow> (st2, p, None)
           | Some (u, proto) \<Rightarrow>
               (let path = request_path u in
                case drain_body (st2 config) of
                  None \<Rightarrow> (st2, p, None)
                | Some body_read \<Rightarrow>
                    (let st3 = st2(config := body_read);
                         st4 = st3(config := strip_bodyUsed (st3 config));
                         c = st4 config
                     in (st4, p,
                         Some \<lparr>via = proto, options = request_options u path c,
                               silent = get_prop c ''silent'', onData = get_prop c ''onData''\<rparr>)))))"

section \<open>The per-verb entry points\<close>

text \<open>
  \<^verbatim>\<open>{...config, method: 'GET'}\<close> builds a new object on every call: the own properties of
  \<^verbatim>\<open>config\<close> (none when it is \<^verbatim>\<open>undefined\<close>), then \<^verbatim>\<open>method\<close>. The world is the store
  together with the next unused object address.
\<close>

record world =
  heap :: store
  fresh :: nat

definition spread_method :: "nat option \<Rightarrow> string \<Rightarrow> world \<Rightarrow> nat \<times> world" where
  "spread_method config m w =
     (let a = fresh w;
          c = (case config of None \<Rightarrow> Map.empty | Some r \<Rightarrow> heap w (Obj r))
      in (a, w\<lparr>heap := (heap w)(Obj a := c(''method'' \<mapsto> Str m)), fresh := Suc a\<rparr>))"

definition verb ::
  "string \<Rightarrow> (string \<Rightarrow> url option) \<Rightarrow> input \<Rightarrow> nat option \<Rightarrow> world
     \<Rightarrow> world \<times> promise \<times> issued option" where
  "verb m parse inp config w =
     (let (a, w1) = spread_method config m w;
          (st, p, rq) = fetch parse inp (Some a) (heap w1)
      in (w1\<lparr>heap := st\<rparr>, p, rq))"

text \<open>\<^verbatim>\<open>get\<close>; \<^verbatim>\<open>post\<close>, \<^verbatim>\<open>put\<close>, \<^verbatim>\<open>patch\<close>, \<^verbatim>\<open>delete\<close> and \<^verbatim>\<open>head\<close> differ in the verb only.\<close>

definition get ::
  "(string \<Rightarrow> url option) \<Rightarrow> input \<Rightarrow> nat option \<Rightarrow> world \<Rightarrow> world \<times> promise \<times> issued option" where
  "get = verb ''GET''"

section \<open>The event handlers\<close>

text \<open>
  After \<^verbatim>\<open>req.end()\<close> the transport calls the handlers the executor registered. The
  state of one call is its Promise, the response object once the response callback has
  run, the \<^verbatim>\<open>data\<close> accumulated so far, the chunks handed to \<^verbatim>\<open>onData\<close>, whether
  \<^verbatim>\<open>req.destroy()\<close> has been called, and whether a listener has thrown. A chunk is a
  \<^verbatim>\<open>Buffer\<close>, a list of bytes; a JavaScript string is given by its UTF-8 encoding.
\<close>

type_synonym buffer = "char list"

datatype event =
    ResponseEv nat string
  | DataEv buffer
  | EndEv
  | ErrorEv string jsval
  | TimeoutEv

record call =
  settled :: promise
  res :: "response option"
  data :: string
  observed :: "buffer list"
  destroyed :: bool
  uncaught :: bool

definition digit_char :: "nat \<Rightarrow> char" where
  "digit_char d = char_of (48 + d)"

function show_nat :: "nat \<Rightarrow> string" where
  "show_nat n = (if n < 10 then [digit_char n] else show_nat (n div 10) @ [digit_char (n mod 10)])"
  by pat_completeness auto
termination
  by (relation "measure id") auto

declare show_nat.simps [simp del]

definition on_response :: "nat \<Rightarrow> string \<Rightarrow> call \<Rightarrow> call" where
  "on_response code msg s =
     s\<lparr>res := Some \<lparr>statusCode = code, statusMessage = msg, decoded = None\<rparr>, data := []\<rparr>"

text \<open>
  Lines 121--122. \<^verbatim>\<open>data += chunk\<close> converts the chunk to a string by itself, with the
  platform's \<^verbatim>\<open>Buffer.prototype.toString\<close>, the parameter \<open>toString\<close>, and appends the
  result. A truthy \<^verbatim>\<open>onData\<close> is then called with the chunk as it came; when it is not a
  function the call throws a \<^verbatim>\<open>TypeError\<close> out of the listener, after \<^verbatim>\<open>data\<close> has been
  extended. A callback that is a function is taken to return.
\<close>

definition on_data :: "(buffer \<Rightarrow> string) \<Rightarrow> issued \<Rightarrow> buffer \<Rightarrow> call \<Rightarrow> call" where
  "on_data toString rq chunk s =
     (let s1 = s\<lparr>data := data s @ toString chunk\<rparr> in
      if truthy (onData rq) then
        (if is_function (onData rq) then s1\<lparr>observed := observed s1 @ [chunk]\<rparr>
         else s1\<lparr>uncaught := True\<rparr>)
      else s1)"

definition on_end :: "issued \<Rightarrow> response \<Rightarrow> call \<Rightarrow> call" where
  "on_end rq r s =
     (let p = (if statusCode r \<ge> 400 \<and> \<not> truthy (silent rq)
               then reject (FetchError (''Request failed with status code '' @ show_nat (statusCode r))
                              (Num (int (statusCode r))) (statusMessage r)) (settled s)
               else settled s);
          r' = r\<lparr>decoded := Some (data s)\<rparr>
      in s\<lparr>res := Some r', settled := resolve r' p\<rparr>)"

definition on_error :: "string \<Rightarrow> jsval \<Rightarrow> call \<Rightarrow> call" where
  "on_error msg code s = s\<lparr>settled := reject (FetchError msg code msg) (settled s)\<rparr>"

definition on_timeout :: "call \<Rightarrow> call" where
  "on_timeout s =
     (let s1 = s\<lparr>destroyed := True\<rparr>
      in s1\<lparr>settled := reject (FetchError ''Request timed out'' (Num 408) ''Request Timeout'') (settled s1)\<rparr>)"

text \<open>
  The transport's side of the contract: the \<^verbatim>\<open>'data'\<close> and \<^verbatim>\<open>'end'\<close> handlers exist only
  once the response callback has registered them, and a request that has been destroyed
  delivers no further response, chunk or completion event. An exception thrown out of a
  listener is recorded in \<^verbatim>\<open>uncaught\<close>; the listeners stay registered, and what the process
  does with the exception is not the module's matter.
\<close>

definition deliver :: "(buffer \<Rightarrow> string) \<Rightarrow> issued \<Rightarrow> event \<Rightarrow> call \<Rightarrow> call" where
  "deliver toString rq ev s =
     (case ev of
        ResponseEv code msg \<Rightarrow> if destroyed s then s else on_response code msg s
      | DataEv chunk \<Rightarrow>
          (case res s of
             None \<Rightarrow> s
           | Some r \<Rightarrow> if destroyed s then s else on_data toString rq chunk s)
      | EndEv \<Rightarrow>
          (case res s of
             None \<Rightarrow> s
           | Some r \<Rightarrow> if destroyed s then s else on_end rq r s)
      | ErrorEv msg code \<Rightarrow> on_error msg code s
      | TimeoutEv \<Rightarrow> on_timeout s)"

definition started :: "promise \<Rightarrow> call" where
  "started p =
     \<lparr>settled = p, res = None, data = [], observed = [], destroyed = False, uncaught = False\<rparr>"

definition run :: "(buffer \<Rightarrow> string) \<Rightarrow> issued \<Rightarrow> event list \<Rightarrow> call \<Rightarrow> call" where
  "run toString rq evs s = fold (deliver toString rq) evs s"

text \<open>
  The values of the platform's conversion of a \<^verbatim>\<open>Buffer\<close> to a string for the buffers
  used in the examples: ASCII text and the whole encoding E2 82 AC of U+20AC convert to
  themselves; each of the fragments E2 82 and AC of that encoding converts to U+FFFD,
  which is EF BF BD.
\<close>

definition example_toString :: "buffer \<Rightarrow> string" where
  "example_toString chunk =
     (if chunk = [CHR 0xE2, CHR 0x82] \<or> chunk = [CHR 0xAC]
      then [CHR 0xEF, CHR 0xBF, CHR 0xBD] else chunk)"

text \<open>
  The values the platform's URL parser returns for the addresses used in the examples.
\<close>

definition example_urls :: "string \<Rightarrow> url option" where
  "example_urls s =
     (if s = ''https://example.com/'' then
        Some \<lparr>protocol = ''https:'', hostname = ''example.com'', port = [],
              pathname = ''/'', search = [], hash = []\<rparr>
      else if s = ''http://example.com/'' then
        Some \<lparr>protocol = ''http:'', hostname = ''example.com'', port = [],
              pathname = ''/'', search = [], hash = []\<rparr>
      else if s = ''http://example.com/search?q=1#frag'' then
        Some \<lparr>protocol = ''http:'', hostname = ''example.com'', port = [],
              pathname = ''/search'', search = ''?q=1'', hash = ''#frag''\<rparr>
      else None)"

text \<open>The parts of what a call returns.\<close>

definition store_after :: "'s \<times> promise \<times> issued option \<Rightarrow> 's" where
  "store_after out = fst out"

definition promise_after :: "'s \<times> promise \<times> issued option \<Rightarrow> promise" where
  "promise_after out = fst (snd out)"

definition requested :: "'s \<times> promise \<times> issued option \<Rightarrow> issued option" where
  "requested out = snd (snd out)"

definition initial_store :: store where
  "initial_store = (\<lambda>r. Map.empty)(HttpConfig := httpConfig)"

section \<open>Notions used in the statements\<close>

text \<open>Lines 98--108 taken together: the three rewrites of the config object.\<close>

definition normalise :: "obj \<Rightarrow> obj option" where
  "normalise c = map_option strip_bodyUsed (drain_body (convert_headers c))"

text \<open>The value of \<^verbatim>\<open>_url\<close> (lines 85, 89 and 92).\<close>

definition target_url :: "(string \<Rightarrow> url option) \<Rightarrow> input \<Rightarrow> url option" where
  "target_url parse inp =
     (case inp of
        RequestIn r \<Rightarrow> parse (request_url r)
      | StringIn s \<Rightarrow> parse s
      | UrlIn u \<Rightarrow> Some u
      | OtherIn v \<Rightarrow> None)"

text \<open>The keys that \<^verbatim>\<open>copyProperties\<close> writes for an input.\<close>

fun copied_keys :: "input \<Rightarrow> string list" where
  "copied_keys (RequestIn r) =
     map fst (filter (\<lambda>(k, v). \<not> (is_function v \<or> loosely_null v)) (enumerable r))"
| "copied_keys _ = []"

text \<open>Events that neither complete the response nor report an error or a timeout.\<close>

fun is_progress :: "event \<Rightarrow> bool" where
  "is_progress (ResponseEv code msg) = True"
| "is_progress (DataEv chunk) = True"
| "is_progress _ = False"

section \<open>Basic facts\<close>

lemmas out_parts = requested_def promise_after_def store_after_def

lemma copyProperties_absent:
  "key \<notin> fst ` set source \<Longrightarrow> copyProperties target source key = target key"
  by (induction source arbitrary: target) (auto split: if_splits)

lemma copyProperties_lookup:
  "distinct (map fst source) \<Longrightarrow>
   copyProperties target source key =
     (case map_of source key of
        None \<Rightarrow> target key
      | Some v \<Rightarrow> if is_function v \<or> loosely_null v then target key else Some v)"
proof (induction source arbitrary: target)
  case Nil
  then show ?case by simp
next
  case (Cons kv source)
  obtain k v where kv: "kv = (k, v)" by (cases kv)
  from Cons.prems kv have d: "distinct (map fst source)" and nk: "k \<notin> fst ` set source"
    by auto
  show ?case
  proof (cases "key = k")
    case True
    with nk have "copyProperties t source key = t key" for t
      by (simp add: copyProperties_absent)
    with True kv show ?thesis by simp
  next
    case False
    with kv Cons.IH [OF d] show ?thesis by (simp split: option.splits)
  qed
qed

lemma copyProperties_not_copied:
  "key \<notin> set (map fst (filter (\<lambda>(k, v). \<not> (is_function v \<or> loosely_null v)) source)) \<Longrightarrow>
   copyProperties target source key = target key"
  by (induction source arbitrary: target) (auto split: if_splits)

lemma ReadStream_loop_of_chunks:
  "ReadStream_loop (of_chunks chunks) i acc = Some (acc @ concat (drop i chunks))"
proof (induction "length chunks - i" arbitrary: i acc)
  case 0
  then have "of_chunks chunks i = None" "drop i chunks = []"
    by (simp_all add: of_chunks_def)
  then show ?case
    by (subst ReadStream_loop.simps) simp
next
  case (Suc n)
  then have i: "i < length chunks" and n: "n = length chunks - Suc i"
    by simp_all
  from i have "of_chunks chunks i = Some (chunks ! i)"
    by (simp add: of_chunks_def)
  moreover from i have "drop i chunks = chunks ! i # drop (Suc i) chunks"
    by (simp add: Cons_nth_drop_Suc)
  ultimately show ?case
    using Suc.hyps(1) [OF n, of "acc @ chunks ! i"]
    by (subst ReadStream_loop.simps) simp
qed

lemma ReadStream_of_chunks: "ReadStream (of_chunks chunks) = Some (concat chunks)"
  by (simp add: ReadStream_def ReadStream_loop_of_chunks)

lemma fold_update_map_of:
  "fold (\<lambda>(k, v) m. m(k \<mapsto> v)) es m0 = m0 ++ map_of (rev es)"
proof (induction es arbitrary: m0)
  case Nil
  then show ?case by simp
next
  case (Cons e es)
  obtain k v where e: "e = (k, v)" by (cases e)
  have "fold (\<lambda>(k, v) m. m(k \<mapsto> v)) (e # es) m0 = m0(k \<mapsto> v) ++ map_of (rev es)"
    by (simp add: e Cons.IH) (simp add: fun_upd_def)
  also have "\<dots> = m0 ++ map_of (rev (e # es))"
    by (auto simp: e map_add_def fun_eq_iff split: option.splits)
  finally show ?case .
qed

lemma fromEntries_map_of: "fromEntries es = map_of (rev es)"
  by (simp add: fromEntries_def fold_update_map_of)

lemma fromEntries_pairs:
  "distinct (map fst es) \<Longrightarrow> fromEntries es k = Some v \<longleftrightarrow> (k, v) \<in> set es"
  by (simp add: fromEntries_map_of rev_map [symmetric])

subsection \<open>The rewrites of the config object\<close>

lemma convert_headers_other: "key \<noteq> ''headers'' \<Longrightarrow> convert_headers c key = c key"
  by (simp add: convert_headers_def split: jsval.splits)

lemma drain_body_other:
  "drain_body c = Some c' \<Longrightarrow> key \<noteq> ''body'' \<Longrightarrow> c' key = c key"
  by (auto simp: drain_body_def split: jsval.splits option.splits)

lemma strip_bodyUsed_other: "key \<noteq> ''bodyUsed'' \<Longrightarrow> strip_bodyUsed c key = c key"
  by (simp add: strip_bodyUsed_def split: jsval.splits)

lemma convert_headers_inert:
  "\<forall>es. get_prop c ''headers'' \<noteq> HeadersObj es \<Longrightarrow> convert_headers c = c"
  by (simp add: convert_headers_def split: jsval.splits)

lemma drain_body_inert:
  "\<forall>stream. get_prop c ''body'' \<noteq> StreamObj stream \<Longrightarrow> drain_body c = Some c"
  by (simp add: drain_body_def split: jsval.splits)

lemma drain_body_stream:
  "get_prop c ''body'' = StreamObj stream \<Longrightarrow>
   drain_body c = map_option (\<lambda>result. c(''body'' \<mapsto> Str result)) (ReadStream stream)"
  by (simp add: drain_body_def split: option.splits)


lemma strip_bodyUsed_inert:
  "\<forall>b. get_prop c ''bodyUsed'' \<noteq> Boolean b \<Longrightarrow> strip_bodyUsed c = c"
  by (simp add: strip_bodyUsed_def split: jsval.splits)

lemma normaliseD:
  "normalise c = Some c' \<Longrightarrow>
   \<exists>d. drain_body (convert_headers c) = Some d \<and> c' = strip_bodyUsed d"
  by (auto simp: normalise_def)

lemma normalise_inert:
  "\<forall>es. get_prop c ''headers'' \<noteq> HeadersObj es \<Longrightarrow>
   \<forall>stream. get_prop c ''body'' \<noteq> StreamObj stream \<Longrightarrow>
   \<forall>b. get_prop c ''bodyUsed'' \<noteq> Boolean b \<Longrightarrow> normalise c = Some c"
  by (simp add: normalise_def convert_headers_inert drain_body_inert strip_bodyUsed_inert)

lemma get_prop_convert_headers:
  "key \<noteq> ''headers'' \<Longrightarrow> get_prop (convert_headers c) key = get_prop c key"
  by (simp add: get_prop_def convert_headers_other)

lemma normalise_no_stream:
  "\<forall>stream. get_prop c ''body'' \<noteq> StreamObj stream \<Longrightarrow>
   normalise c = Some (strip_bodyUsed (convert_headers c))"
  by (simp add: normalise_def drain_body_inert get_prop_convert_headers)

lemma normalise_of_chunks:
  "get_prop c ''body'' = StreamObj (of_chunks chunks) \<Longrightarrow>
   normalise c = Some (strip_bodyUsed ((convert_headers c)(''body'' \<mapsto> Str (concat chunks))))"
  by (simp add: normalise_def drain_body_stream get_prop_convert_headers ReadStream_of_chunks)

lemma normalise_other:
  "normalise c = Some c' \<Longrightarrow> key \<notin> {''headers'', ''body'', ''bodyUsed''} \<Longrightarrow> c' key = c key"
  by (auto dest!: normaliseD simp: convert_headers_other strip_bodyUsed_other
        dest: drain_body_other [where key = key])

lemma normalise_headers:
  "normalise c = Some c' \<Longrightarrow> get_prop c ''headers'' = HeadersObj es \<Longrightarrow>
   c' ''headers'' = Some (Plain (fromEntries es))"
proof -
  assume n: "normalise c = Some c'" and h: "get_prop c ''headers'' = HeadersObj es"
  from normaliseD [OF n] obtain d where
    d: "drain_body (convert_headers c) = Some d" and c': "c' = strip_bodyUsed d"
    by blast
  from h have "convert_headers c ''headers'' = Some (Plain (fromEntries es))"
    by (simp add: convert_headers_def)
  with drain_body_other [OF d, of "''headers''"] c' show ?thesis
    by (simp add: strip_bodyUsed_other)
qed



lemma normalise_absent:
  "normalise c = Some c' \<Longrightarrow> c key = None \<Longrightarrow> c' key = None"
proof -
  assume n: "normalise c = Some c'" and a: "c key = None"
  from normaliseD [OF n] obtain d where
    d: "drain_body (convert_headers c) = Some d" and c': "c' = strip_bodyUsed d"
    by blast
  consider "key = ''headers''" | "key = ''body''" | "key = ''bodyUsed''"
    | "key \<notin> {''headers'', ''body'', ''bodyUsed''}" by auto
  then show ?thesis
  proof cases
    case 1
    with a have "convert_headers c = c"
      by (simp add: convert_headers_inert get_prop_def)
    with 1 a drain_body_other [OF d, of key] c' show ?thesis
      by (simp add: strip_bodyUsed_other)
  next
    case 2
    with a have "drain_body (convert_headers c) = Some (convert_headers c)"
      by (simp add: drain_body_inert get_prop_def convert_headers_other)
    with 2 a d c' show ?thesis
      by (auto simp: convert_headers_other strip_bodyUsed_other)
  next
    case 3
    with a drain_body_other [OF d, of key] have "d key = None"
      by (simp add: convert_headers_other)
    with 3 c' show ?thesis
      by (simp add: strip_bodyUsed_def split: jsval.splits)
  next
    case 4
    with a normalise_other [OF n 4] show ?thesis by simp
  qed
qed

lemma normalise_default:
  "normalise c = Some c' \<Longrightarrow> c key = httpConfig key \<Longrightarrow> c' key = httpConfig key"
proof -
  assume n: "normalise c = Some c'" and a: "c key = httpConfig key"
  from normaliseD [OF n] obtain d where
    d: "drain_body (convert_headers c) = Some d" and c': "c' = strip_bodyUsed d"
    by blast
  consider "key = ''headers''" | "key = ''body''" | "key = ''bodyUsed''"
    | "key \<notin> {''headers'', ''body'', ''bodyUsed''}" by auto
  then show ?thesis
  proof cases
    case 1
    with a have "convert_headers c = c"
      by (simp add: convert_headers_inert get_prop_def httpConfig_def)
    with 1 a drain_body_other [OF d, of key] c' show ?thesis
      by (simp add: strip_bodyUsed_other)
  next
    case 2
    with a have "drain_body (convert_headers c) = Some (convert_headers c)"
      by (simp add: drain_body_inert get_prop_def convert_headers_other httpConfig_def)
    with 2 a d c' show ?thesis
      by (auto simp: convert_headers_other strip_bodyUsed_other)
  next
    case 3
    with a have "c ''bodyUsed'' = None" by (simp add: httpConfig_def)
    with 3 normalise_absent [OF n, of key] a show ?thesis by simp
  next
    case 4
    with a normalise_other [OF n 4] show ?thesis by simp
  qed
qed

lemma normalise_idem: "normalise c = Some c' \<Longrightarrow> normalise c' = Some c'"
proof -
  assume n: "normalise c = Some c'"
  from normaliseD [OF n] obtain d where
    d: "drain_body (convert_headers c) = Some d" and c': "c' = strip_bodyUsed d"
    by blast
  have h: "\<forall>es. get_prop c' ''headers'' \<noteq> HeadersObj es"
    using drain_body_other [OF d, of "''headers''"]
    by (auto simp: c' get_prop_def strip_bodyUsed_other convert_headers_def
          split: jsval.splits option.splits)
  have b: "\<forall>stream. get_prop c' ''body'' \<noteq> StreamObj stream"
    using d
    by (auto simp: c' get_prop_def strip_bodyUsed_other drain_body_def
          split: jsval.splits option.splits)
  have u: "\<forall>b. get_prop c' ''bodyUsed'' \<noteq> Boolean b"
    by (auto simp: c' get_prop_def strip_bodyUsed_def split: jsval.splits option.splits)
  from h b u show ?thesis by (rule normalise_inert)
qed

subsection \<open>The options object\<close>

lemma request_path_concat: "request_path u = pathname u @ search u @ hash u"
  by (simp add: request_path_def Let_def)

lemma request_options_other:
  "key \<notin> {''hostname'', ''port'', ''path'', ''silent'', ''onData''} \<Longrightarrow>
   request_options u path c key = c key"
  by (simp add: request_options_def map_add_def restrict_map_def split: option.splits)

lemma request_options_absent:
  "key \<notin> {''hostname'', ''port'', ''path''} \<Longrightarrow> c key = None \<Longrightarrow>
   request_options u path c key = None"
  by (simp add: request_options_def map_add_def restrict_map_def split: option.splits)

lemma request_options_path:
  "request_options u path c ''path'' = (case c ''path'' of None \<Rightarrow> Some (Str path) | Some v \<Rightarrow> Some v)"
  by (simp add: request_options_def map_add_def restrict_map_def split: option.splits)

lemma request_options_headers:
  "request_options u path c ''headers'' = c ''headers''"
  by (simp add: request_options_other)

subsection \<open>The shape of a call that issues a request\<close>

lemma fetch_issued:
  assumes "fetch parse inp cfg st = (st', p, Some rq)"
  shows "\<exists>st1 u proto c.
           resolve_input parse inp (config_ref cfg) st Pending = Some (st1, Pending, Some (u, proto))
         \<and> target_url parse inp = Some u
         \<and> normalise (st1 (config_ref cfg)) = Some c
         \<and> st' = st1(config_ref cfg := c)
         \<and> rq = \<lparr>via = proto,
                  options = request_options u (request_path u) c,
                  silent = get_prop c ''silent'',
                  onData = get_prop c ''onData''\<rparr>"
  using assms
  by (cases inp)
     (auto simp: fetch_def resolve_input_def target_url_def normalise_def Let_def
           split: option.splits prod.splits)

lemma fetch_issued_pending:
  "fetch parse inp cfg st = (st', p, Some rq) \<Longrightarrow> p = Pending"
  by (auto simp: fetch_def resolve_input_def Let_def split: option.splits input.splits prod.splits)

lemma resolve_input_store:
  "resolve_input parse inp config st p = Some (st1, p1, t) \<Longrightarrow>
   st1 = (case inp of RequestIn r \<Rightarrow> st(config := copyProperties (st config) (enumerable r))
          | _ \<Rightarrow> st)"
  by (cases inp) (auto simp: resolve_input_def split: option.splits)

lemma fetch_string:
  "parse s = Some u \<Longrightarrow> normalise (st (config_ref cfg)) = Some c \<Longrightarrow>
   fetch parse (StringIn s) cfg st =
     (st(config_ref cfg := c), Pending,
      Some \<lparr>via = Http,
            options = request_options u (request_path u) c,
            silent = get_prop c ''silent'',
            onData = get_prop c ''onData''\<rparr>)"
  by (auto simp: fetch_def resolve_input_def string_protocol_def normalise_def Let_def)

lemma fetch_request:
  "parse (request_url r) = Some u \<Longrightarrow>
   normalise (copyProperties (st (config_ref cfg)) (enumerable r)) = Some c \<Longrightarrow>
   fetch parse (RequestIn r) cfg st =
     (st(config_ref cfg := c), Pending,
      Some \<lparr>via = (if startsWith (request_url r) ''https'' then Https else Http),
            options = request_options u (request_path u) c,
            silent = get_prop c ''silent'',
            onData = get_prop c ''onData''\<rparr>)"
  by (auto simp: fetch_def resolve_input_def normalise_def Let_def)

lemma normalise_httpConfig: "normalise httpConfig = Some httpConfig"
  by (rule normalise_inert) (simp_all add: get_prop_def httpConfig_def)

lemma example_https:
  "example_urls ''https://example.com/'' =
     Some \<lparr>protocol = ''https:'', hostname = ''example.com'', port = [],
           pathname = ''/'', search = [], hash = []\<rparr>"
  by (simp add: example_urls_def)

lemma example_http:
  "example_urls ''http://example.com/'' =
     Some \<lparr>protocol = ''http:'', hostname = ''example.com'', port = [],
           pathname = ''/'', search = [], hash = []\<rparr>"
  by (simp add: example_urls_def)

lemma example_search:
  "example_urls ''http://example.com/search?q=1#frag'' =
     Some \<lparr>protocol = ''http:'', hostname = ''example.com'', port = [],
           pathname = ''/search'', search = ''?q=1'', hash = ''#frag''\<rparr>"
  by (simp add: example_urls_def)

subsection \<open>Runs of events\<close>

lemma run_Nil [simp]: "run ts rq [] s = s"
  by (simp add: run_def)

lemma run_Cons [simp]: "run ts rq (ev # evs) s = run ts rq evs (deliver ts rq ev s)"
  by (simp add: run_def)

lemma run_append [simp]: "run ts rq (xs @ ys) s = run ts rq ys (run ts rq xs s)"
  by (simp add: run_def)

lemma run_chunks:
  "res s = Some r \<Longrightarrow> \<not> destroyed s \<Longrightarrow>
   res (run ts rq (map DataEv chunks) s) = Some r
   \<and> \<not> destroyed (run ts rq (map DataEv chunks) s)
   \<and> settled (run ts rq (map DataEv chunks) s) = settled s
   \<and> data (run ts rq (map DataEv chunks) s) = data s @ concat (map ts chunks)"
proof (induction chunks arbitrary: s)
  case Nil
  then show ?case by simp
next
  case (Cons c chunks)
  let ?s1 = "deliver ts rq (DataEv c) s"
  from Cons.prems have s1: "?s1 = on_data ts rq c s"
    by (simp add: deliver_def)
  with Cons.prems have 1: "res ?s1 = Some r" "\<not> destroyed ?s1"
    and 2: "settled ?s1 = settled s" "data ?s1 = data s @ ts c"
    by (simp_all add: on_data_def Let_def)
  from Cons.IH [OF 1] 2 show ?case
    by simp
qed

lemma progress_keeps_pending:
  "list_all is_progress pre \<Longrightarrow> settled s = Pending \<Longrightarrow> \<not> destroyed s \<Longrightarrow>
   settled (run ts rq pre s) = Pending \<and> \<not> destroyed (run ts rq pre s)"
proof (induction pre arbitrary: s)
  case Nil
  then show ?case by simp
next
  case (Cons ev pre)
  from Cons.prems
  have "settled (deliver ts rq ev s) = Pending \<and> \<not> destroyed (deliver ts rq ev s)"
    by (cases ev)
       (simp_all add: deliver_def on_response_def on_data_def Let_def split: option.splits)
  with Cons show ?case by simp
qed

lemma destroyed_is_final:
  "destroyed s \<Longrightarrow> settled s \<noteq> Pending \<Longrightarrow> run ts rq later s = s"
proof (induction later)
  case Nil
  then show ?case by simp
next
  case (Cons ev later)
  then have "deliver ts rq ev s = s"
    by (cases ev) (simp_all add: deliver_def on_error_def on_timeout_def reject_def split: option.splits)
  with Cons show ?case by simp
qed

lemma end_settles:
  "res s = Some r \<Longrightarrow> \<not> destroyed s \<Longrightarrow> settled s = Pending \<Longrightarrow>
   settled (deliver ts rq EndEv s) =
     (if 400 \<le> statusCode r \<and> \<not> truthy (silent rq)
      then Rejected (FetchError (''Request failed with status code '' @ show_nat (statusCode r))
                       (Num (int (statusCode r))) (statusMessage r))
      else Resolved (r\<lparr>decoded := Some (data s)\<rparr>))"
  by (simp add: deliver_def on_end_def reject_def resolve_def Let_def)

subsection \<open>Calls with a string input\<close>

lemma fetch_string_requested:
  "parse s = Some u \<Longrightarrow> normalise (st (config_ref cfg)) = Some c \<Longrightarrow>
   requested (fetch parse (StringIn s) cfg st) =
     Some \<lparr>via = Http, options = request_options u (request_path u) c,
           silent = get_prop c ''silent'', onData = get_prop c ''onData''\<rparr>"
  by (simp add: fetch_string requested_def)

lemma fetch_string_parts:
  "parse s = Some u \<Longrightarrow> normalise (st (config_ref cfg)) = Some c \<Longrightarrow>
   fetch parse (StringIn s) cfg st =
     (store_after (fetch parse (StringIn s) cfg st),
      promise_after (fetch parse (StringIn s) cfg st),
      Some (the (requested (fetch parse (StringIn s) cfg st))))"
  by (simp add: fetch_string out_parts)

lemma fetch_request_parts:
  "parse (request_url r) = Some u \<Longrightarrow>
   normalise (copyProperties (st (config_ref cfg)) (enumerable r)) = Some c \<Longrightarrow>
   fetch parse (RequestIn r) cfg st =
     (store_after (fetch parse (RequestIn r) cfg st),
      promise_after (fetch parse (RequestIn r) cfg st),
      Some (the (requested (fetch parse (RequestIn r) cfg st))))"
  by (simp add: fetch_request out_parts)

lemma normalise_initial: "normalise (initial_store (config_ref None)) = Some httpConfig"
  by (simp add: config_ref_def initial_store_def normalise_httpConfig)

lemma normalise_caller:
  "normalise c = Some c' \<Longrightarrow> normalise ((st(Obj a := c)) (config_ref (Some a))) = Some c'"
  by (simp add: config_ref_def)

lemma default_requested:
  "parse s = Some u \<Longrightarrow>
   requested (fetch parse (StringIn s) None initial_store) =
     Some \<lparr>via = Http, options = request_options u (request_path u) httpConfig,
           silent = get_prop httpConfig ''silent'', onData = get_prop httpConfig ''onData''\<rparr>"
  by (rule fetch_string_requested [where cfg = None and st = initial_store and c = httpConfig])
     (simp_all add: normalise_initial)

lemma default_parts:
  "parse s = Some u \<Longrightarrow>
   fetch parse (StringIn s) None initial_store =
     (store_after (fetch parse (StringIn s) None initial_store),
      promise_after (fetch parse (StringIn s) None initial_store),
      Some (the (requested (fetch parse (StringIn s) None initial_store))))"
  by (rule fetch_string_parts [where cfg = None and st = initial_store and c = httpConfig])
     (simp_all add: normalise_initial)

lemma caller_requested:
  "parse s = Some u \<Longrightarrow> normalise c = Some c' \<Longrightarrow>
   requested (fetch parse (StringIn s) (Some a) (st(Obj a := c))) =
     Some \<lparr>via = Http, options = request_options u (request_path u) c',
           silent = get_prop c' ''silent'', onData = get_prop c' ''onData''\<rparr>"
  by (rule fetch_string_requested [where cfg = "Some a" and st = "st(Obj a := c)" and c = c'])
     (simp_all add: config_ref_def)

lemma caller_parts:
  "parse s = Some u \<Longrightarrow> normalise c = Some c' \<Longrightarrow>
   fetch parse (StringIn s) (Some a) (st(Obj a := c)) =
     (store_after (fetch parse (StringIn s) (Some a) (st(Obj a := c))),
      promise_after (fetch parse (StringIn s) (Some a) (st(Obj a := c))),
      Some (the (requested (fetch parse (StringIn s) (Some a) (st(Obj a := c))))))"
  by (rule fetch_string_parts [where cfg = "Some a" and st = "st(Obj a := c)" and c = c'])
     (simp_all add: config_ref_def)

section \<open>Transport selection for a string input\<close>

text \<open>
  Claim C1 says that for a string input the transport is selected from the parsed scheme:
  the TLS-capable transport for \<^verbatim>\<open>https:\<close>. The string is parsed (line 89), but line 90
  reads \<^verbatim>\<open>url.protocol\<close> from the string itself, not from the parsed \<^verbatim>\<open>_url\<close>, so the
  comparison with \<^verbatim>\<open>'https:'\<close> never succeeds: no call with a string input selects the
  TLS-capable transport, and \<^verbatim>\<open>fetch("https://example.com/")\<close>, whose parsed scheme is
  \<^verbatim>\<open>https:\<close>, is issued on the plain one. (The \<^verbatim>\<open>URL\<close> and \<^verbatim>\<open>Request\<close> branches do
  select by scheme.)
\<close>

theorem string_input_selects_plain_transport:
  "map_option via (requested (fetch parse (StringIn s) cfg st)) \<noteq> Some Https
   \<and> map_option protocol (example_urls ''https://example.com/'') = Some ''https:''
   \<and> map_option via (requested (fetch example_urls (StringIn ''https://example.com/'') None
          initial_store)) = Some Http"
proof -
  have "map_option via (requested (fetch parse (StringIn s) cfg st)) \<noteq> Some Https"
    by (simp add: fetch_def resolve_input_def string_protocol_def requested_def Let_def
          split: option.splits)
  moreover have "map_option protocol (example_urls ''https://example.com/'') = Some ''https:''"
    by (simp add: example_https)
  moreover have "map_option via (requested (fetch example_urls (StringIn ''https://example.com/'') None
          initial_store)) = Some Http"
    by (simp add: default_requested [where parse = example_urls, OF example_https])
  ultimately show ?thesis by simp
qed

section \<open>Classification by status\<close>

text \<open>
  Claim C2 says that the response object a call resolves with returns the received body
  from \<^verbatim>\<open>text()\<close>. Line 121 converts every chunk to a string by itself, where
  \<^verbatim>\<open>ReadStream\<close> (line 68) decodes with \<^verbatim>\<open>{stream: true}\<close> and so carries a character
  over from one chunk to the next. When the body E2 82 AC (the character U+20AC) of a
  response with status 200 arrives as the chunks E2 82 and AC, the response resolved with
  has as its text EF BF BD EF BF BD (twice U+FFFD), where the body as a whole converts
  to E2 82 AC.
\<close>

theorem split_character_is_not_restored:
  "settled (run example_toString
      (the (requested (fetch example_urls (StringIn ''http://example.com/'') None initial_store)))
      (ResponseEv 200 ''OK'' # map DataEv [[CHR 0xE2, CHR 0x82], [CHR 0xAC]] @ [EndEv])
      (started (promise_after (fetch example_urls (StringIn ''http://example.com/'') None
         initial_store))))
     = Resolved \<lparr>statusCode = 200, statusMessage = ''OK'',
          decoded = Some [CHR 0xEF, CHR 0xBF, CHR 0xBD, CHR 0xEF, CHR 0xBF, CHR 0xBD]\<rparr>
   \<and> text_of \<lparr>statusCode = 200, statusMessage = ''OK'',
          decoded = Some [CHR 0xEF, CHR 0xBF, CHR 0xBD, CHR 0xEF, CHR 0xBF, CHR 0xBD]\<rparr>
       = Some [CHR 0xEF, CHR 0xBF, CHR 0xBD, CHR 0xEF, CHR 0xBF, CHR 0xBD]
   \<and> example_toString (concat [[CHR 0xE2, CHR 0x82], [CHR 0xAC]])
       = [CHR 0xE2, CHR 0x82, CHR 0xAC]"
proof -
  let ?a = "fetch example_urls (StringIn ''http://example.com/'') None initial_store"
  note a = default_parts [where parse = example_urls, OF example_http]
  from a have p: "promise_after ?a = Pending"
    by (rule fetch_issued_pending)
  have q: "silent (the (requested ?a)) = Boolean False" "onData (the (requested ?a)) = Null"
    by (simp_all add: default_requested [where parse = example_urls, OF example_http]
          get_prop_def httpConfig_def)
  show ?thesis
    by (simp add: p q started_def deliver_def on_response_def on_data_def on_end_def
          resolve_def reject_def example_toString_def text_of_def Let_def)
qed

text \<open>
  The rest of claim C2 holds on the code, and so does its last part when no character is
  split. For a call that issued a request and whose response completes (the
  response callback, then the chunks, then \<^verbatim>\<open>'end'\<close>), the Promise is rejected exactly
  when the status code is at least 400 and \<^verbatim>\<open>silent\<close> is falsy, with a \<^verbatim>\<open>FetchError\<close>
  whose \<^verbatim>\<open>status\<close> is the status code and whose \<^verbatim>\<open>statusText\<close> is the status message;
  in every other case it is resolved with the response object, whose \<^verbatim>\<open>text()\<close> returns
  the received body as text, provided that the chunks converted one by one give the text
  of the whole body (no character is split over two chunks). This holds whatever
  \<^verbatim>\<open>onData\<close> is: line 121 has extended \<^verbatim>\<open>data\<close> before line 122 can throw.
\<close>

theorem status_decides_settlement:
  assumes "fetch parse inp cfg st = (st', p, Some rq)"
      and "concat (map toString chunks) = toString (concat chunks)"
  shows "settled (run toString rq (ResponseEv code msg # map DataEv chunks @ [EndEv]) (started p)) =
           (if 400 \<le> code \<and> \<not> truthy (silent rq)
            then Rejected (FetchError (''Request failed with status code '' @ show_nat code)
                             (Num (int code)) msg)
            else Resolved \<lparr>statusCode = code, statusMessage = msg,
                            decoded = Some (toString (concat chunks))\<rparr>)
         \<and> text_of \<lparr>statusCode = code, statusMessage = msg,
                     decoded = Some (toString (concat chunks))\<rparr>
             = Some (toString (concat chunks))"
proof -
  from assms(1) have p: "p = Pending" by (rule fetch_issued_pending)
  let ?r = "\<lparr>statusCode = code, statusMessage = msg, decoded = None\<rparr>"
  let ?s1 = "deliver toString rq (ResponseEv code msg) (started p)"
  let ?s2 = "run toString rq (map DataEv chunks) ?s1"
  have s1: "res ?s1 = Some ?r" "\<not> destroyed ?s1" "settled ?s1 = Pending" "data ?s1 = []"
    by (simp_all add: deliver_def started_def on_response_def p)
  from run_chunks [OF s1(1,2), of toString rq chunks] s1(3,4) assms(2)
  have s2: "res ?s2 = Some ?r" "\<not> destroyed ?s2" "settled ?s2 = Pending"
    "data ?s2 = toString (concat chunks)"
    by simp_all
  from end_settles [OF s2(1,2,3), of toString rq] s2(4)
  show ?thesis
    by (simp add: text_of_def)
qed

theorem status_decides_settlement_witness:
  "concat (map example_toString [''not '', ''here'']) = example_toString (concat [''not '', ''here''])
   \<and> settled (run example_toString
      (the (requested (fetch example_urls (StringIn ''http://example.com/'') (Some 0)
         (initial_store(Obj 0 := [''silent'' \<mapsto> Boolean True])))))
      (ResponseEv 404 ''Not Found'' # map DataEv [''not '', ''here''] @ [EndEv])
      (started (promise_after (fetch example_urls (StringIn ''http://example.com/'') (Some 0)
         (initial_store(Obj 0 := [''silent'' \<mapsto> Boolean True]))))))
     = Resolved \<lparr>statusCode = 404, statusMessage = ''Not Found'', decoded = Some ''not here''\<rparr>
   \<and> settled (run example_toString
      (the (requested (fetch example_urls (StringIn ''http://example.com/'') None initial_store)))
      (ResponseEv 404 ''Not Found'' # map DataEv [''not '', ''here''] @ [EndEv])
      (started (promise_after (fetch example_urls (StringIn ''http://example.com/'') None initial_store))))
     = Rejected (FetchError (''Request failed with status code '' @ show_nat 404) (Num 404) ''Not Found'')"
proof -
  let ?a = "fetch example_urls (StringIn ''http://example.com/'') (Some 0)
         (initial_store(Obj 0 := [''silent'' \<mapsto> Boolean True]))"
  let ?b = "fetch example_urls (StringIn ''http://example.com/'') None initial_store"
  have na: "normalise [''silent'' \<mapsto> Boolean True] = Some [''silent'' \<mapsto> Boolean True]"
    by (rule normalise_inert) (simp_all add: get_prop_def)
  note a = caller_parts [where parse = example_urls and st = initial_store and a = 0,
                         OF example_http na]
  note b = default_parts [where parse = example_urls, OF example_http]
  have sa: "silent (the (requested ?a)) = Boolean True"
    by (simp add: caller_requested [where parse = example_urls, OF example_http na] get_prop_def)
  have sb: "silent (the (requested ?b)) = Boolean False"
    by (simp add: default_requested [where parse = example_urls, OF example_http]
          get_prop_def httpConfig_def)
  have t: "concat (map example_toString [''not '', ''here''])
             = example_toString (concat [''not '', ''here''])"
    by (simp add: example_toString_def)
  have e: "example_toString ''not here'' = ''not here''"
    by (simp add: example_toString_def)
  from status_decides_settlement [OF a t, of 404 "''Not Found''"]
       status_decides_settlement [OF b t, of 404 "''Not Found''"] t
  show ?thesis
    by (simp add: sa sb e)
qed

section \<open>The shared default configuration\<close>

text \<open>
  Claim C3 says that no call mutates state shared with another call and that the default
  configuration behaves as a per-call snapshot. When \<^verbatim>\<open>fetch\<close> is called without a config,
  \<^verbatim>\<open>config\<close> is the module-level \<^verbatim>\<open>httpConfig\<close> object itself and \<^verbatim>\<open>copyProperties\<close>
  writes into it. After \<^verbatim>\<open>fetch(new Request("https://example.com/", {method: "POST",
  body: ...}))\<close> the shared object holds \<^verbatim>\<open>method: "POST"\<close>, and a later
  \<^verbatim>\<open>fetch("http://example.com/")\<close> is issued with method \<^verbatim>\<open>POST\<close> and the drained body
  of the earlier call; on the untouched defaults the same call is issued with method
  \<^verbatim>\<open>GET\<close> and body \<^verbatim>\<open>null\<close>.
\<close>

theorem default_config_leaks_between_calls:
  "store_after (fetch example_urls
       (RequestIn (Request ''https://example.com/'' []
          [(''method'', Str ''POST''), (''body'', StreamObj (of_chunks [''secret''])),
           (''bodyUsed'', Boolean False), (''clone'', Func 0)]))
       None initial_store) HttpConfig ''method'' = Some (Str ''POST'')
   \<and> options (the (requested (fetch example_urls (StringIn ''http://example.com/'') None
        (store_after (fetch example_urls
           (RequestIn (Request ''https://example.com/'' []
              [(''method'', Str ''POST''), (''body'', StreamObj (of_chunks [''secret''])),
               (''bodyUsed'', Boolean False), (''clone'', Func 0)]))
           None initial_store))))) ''method'' = Some (Str ''POST'')
   \<and> options (the (requested (fetch example_urls (StringIn ''http://example.com/'') None
        (store_after (fetch example_urls
           (RequestIn (Request ''https://example.com/'' []
              [(''method'', Str ''POST''), (''body'', StreamObj (of_chunks [''secret''])),
               (''bodyUsed'', Boolean False), (''clone'', Func 0)]))
           None initial_store))))) ''body'' = Some (Str ''secret'')
   \<and> options (the (requested (fetch example_urls (StringIn ''http://example.com/'') None
        initial_store))) ''method'' = Some (Str ''GET'')
   \<and> options (the (requested (fetch example_urls (StringIn ''http://example.com/'') None
        initial_store))) ''body'' = Some Null"
proof -
  let ?r = "Request ''https://example.com/'' []
          [(''method'', Str ''POST''), (''body'', StreamObj (of_chunks [''secret''])),
           (''bodyUsed'', Boolean False), (''clone'', Func 0)]"
  let ?m = "copyProperties (initial_store (config_ref None)) (enumerable ?r)"
  let ?c = "strip_bodyUsed ((convert_headers ?m)(''body'' \<mapsto> Str ''secret''))"
  have u: "example_urls (request_url ?r) = Some \<lparr>protocol = ''https:'', hostname = ''example.com'', port = [],
           pathname = ''/'', search = [], hash = []\<rparr>"
    by (simp add: example_https)
  have "get_prop ?m ''body'' = StreamObj (of_chunks [''secret''])"
    by (simp add: enumerable_def get_prop_def)
  from normalise_of_chunks [OF this] have n: "normalise ?m = Some ?c"
    by simp
  have first: "store_after (fetch example_urls (RequestIn ?r) None initial_store) =
                 initial_store(HttpConfig := ?c)"
    by (simp add: fetch_request [where parse = example_urls and r = ?r and cfg = None
          and st = initial_store, OF u n] out_parts config_ref_def)
  have "?m ''method'' = Some (Str ''POST'')"
    by (simp add: enumerable_def)
  with normalise_other [OF n, of "''method''"] have m: "?c ''method'' = Some (Str ''POST'')"
    by simp
  have b: "?c ''body'' = Some (Str ''secret'')"
    by (simp add: strip_bodyUsed_other)
  from normalise_idem [OF n]
  have n2: "normalise ((initial_store(HttpConfig := ?c)) (config_ref None)) = Some ?c"
    by (simp add: config_ref_def)
  note second_call = fetch_string_requested [where parse = example_urls and cfg = None
      and st = "initial_store(HttpConfig := ?c)", OF example_http n2]
  have second: "options (the (requested (fetch example_urls (StringIn ''http://example.com/'') None
                   (initial_store(HttpConfig := ?c))))) key = ?c key"
    if "key \<notin> {''hostname'', ''port'', ''path'', ''silent'', ''onData''}" for key
    using that
    by (subst second_call) (simp add: request_options_other del: insert_iff)
  have untouched: "options (the (requested (fetch example_urls (StringIn ''http://example.com/'') None
                   initial_store))) key = httpConfig key"
    if "key \<notin> {''hostname'', ''port'', ''path'', ''silent'', ''onData''}" for key
    using that
    by (simp add: default_requested [where parse = example_urls, OF example_http]
          request_options_other del: insert_iff)
  show ?thesis
    unfolding first
    by (simp add: second untouched m b) (simp add: httpConfig_def)
qed

section \<open>Default values\<close>

text \<open>
  Claim C4 says that in every call each field the caller does not supply takes its
  default value. The defaults are the default value of the whole \<^verbatim>\<open>config\<close> parameter:
  they are in effect only when no config object is passed. With the config
  \<^verbatim>\<open>{silent: true}\<close> the options handed to the transport carry no \<^verbatim>\<open>timeout\<close>, where
  the default is 5000.
\<close>

theorem no_default_timeout_with_config:
  "requested (fetch example_urls (StringIn ''http://example.com/'') (Some 0)
       (initial_store(Obj 0 := [''silent'' \<mapsto> Boolean True]))) \<noteq> None
   \<and> options (the (requested (fetch example_urls (StringIn ''http://example.com/'') (Some 0)
       (initial_store(Obj 0 := [''silent'' \<mapsto> Boolean True]))))) ''timeout'' = None
   \<and> httpConfig ''timeout'' = Some (Num 5000)"
proof -
  have n: "normalise [''silent'' \<mapsto> Boolean True] = Some [''silent'' \<mapsto> Boolean True]"
    by (rule normalise_inert) (simp_all add: get_prop_def)
  show ?thesis
    by (simp add: caller_requested [where parse = example_urls, OF example_http n]
          request_options_absent httpConfig_def)
qed

text \<open>
  Claim C4, amended. When \<^verbatim>\<open>fetch\<close> is called without a config argument and the
  module-level defaults are as declared, every field that is not overwritten by a property
  copied from a \<^verbatim>\<open>Request\<close> input has its default value in the config of the call, and is
  handed to the transport with that value (\<^verbatim>\<open>silent\<close> and \<^verbatim>\<open>onData\<close> are kept back and
  read from the same config): headers the empty mapping, timeout 5000, agent, auth, body
  and signal \<^verbatim>\<open>null\<close>, method \<^verbatim>\<open>"GET"\<close>, onData \<^verbatim>\<open>null\<close>, silent \<^verbatim>\<open>false\<close>.
\<close>

theorem baseline_defaults_without_config:
  assumes "fetch parse inp None st = (st', p, Some rq)"
      and "st HttpConfig = httpConfig"
      and "key \<notin> set (copied_keys inp)"
  shows "st' HttpConfig key = httpConfig key
       \<and> (key \<notin> {''hostname'', ''port'', ''path'', ''silent'', ''onData''} \<longrightarrow>
            options rq key = httpConfig key)
       \<and> silent rq = get_prop (st' HttpConfig) ''silent''
       \<and> onData rq = get_prop (st' HttpConfig) ''onData''
       \<and> map httpConfig [''headers'', ''timeout'', ''agent'', ''auth'', ''body'', ''method'',
                          ''onData'', ''silent'', ''signal'']
           = [Some (Plain Map.empty), Some (Num 5000), Some Null, Some Null, Some Null,
              Some (Str ''GET''), Some Null, Some (Boolean False), Some Null]"
proof -
  from fetch_issued [OF assms(1)] obtain st1 u proto c where
    r: "resolve_input parse inp HttpConfig st Pending = Some (st1, Pending, Some (u, proto))"
    and c: "normalise (st1 HttpConfig) = Some c"
    and st': "st' = st1(HttpConfig := c)"
    and rq: "rq = \<lparr>via = proto,
                  options = request_options u (request_path u) c,
                  silent = get_prop c ''silent'',
                  onData = get_prop c ''onData''\<rparr>"
    by (auto simp: config_ref_def)
  from resolve_input_store [OF r] assms(3)
  have "st1 HttpConfig key = st HttpConfig key"
    by (cases inp) (simp_all add: copyProperties_not_copied)
  with assms(2) have "st1 HttpConfig key = httpConfig key"
    by simp
  with c have n: "c key = httpConfig key"
    by (rule normalise_default)
  have table: "map httpConfig [''headers'', ''timeout'', ''agent'', ''auth'', ''body'', ''method'',
                          ''onData'', ''silent'', ''signal'']
           = [Some (Plain Map.empty), Some (Num 5000), Some Null, Some Null, Some Null,
              Some (Str ''GET''), Some Null, Some (Boolean False), Some Null]"
    by (simp add: httpConfig_def)
  from n table show ?thesis
    by (simp add: st' rq request_options_other del: insert_iff)
qed

theorem baseline_defaults_without_config_witness:
  "initial_store HttpConfig = httpConfig
   \<and> ''timeout'' \<notin> set (copied_keys (StringIn ''http://example.com/''))
   \<and> store_after (fetch example_urls (StringIn ''http://example.com/'') None initial_store)
        HttpConfig ''timeout'' = Some (Num 5000)
   \<and> options (the (requested (fetch example_urls (StringIn ''http://example.com/'') None
        initial_store))) ''timeout'' = Some (Num 5000)"
proof -
  note a = default_parts [where parse = example_urls, OF example_http]
  have k: "''timeout'' \<notin> set (copied_keys (StringIn ''http://example.com/''))"
    by simp
  have i: "initial_store HttpConfig = httpConfig"
    by (simp add: initial_store_def)
  have t: "httpConfig ''timeout'' = Some (Num 5000)"
    by (simp add: httpConfig_def)
  from baseline_defaults_without_config [OF a i k] i t k
  show ?thesis
    by simp
qed

section \<open>Timeout\<close>

text \<open>
  Claim C5. When the transport raises \<^verbatim>\<open>'timeout'\<close> on a call that issued a request and
  has seen neither a completion nor an error (only the response callback and chunks, if
  anything), the handler destroys the request and the Promise is rejected with
  \<^verbatim>\<open>FetchError("Request timed out", 408, "Request Timeout")\<close>; whatever events follow,
  the state of the call stays as it is then: no further chunk is accumulated or handed to
  \<^verbatim>\<open>onData\<close>, no completion is processed, and the Promise keeps its value. When the
  timeout is raised is the transport's matter and is taken as given.
\<close>

theorem timeout_tears_down:
  assumes "fetch parse inp cfg st = (st', p, Some rq)"
      and "list_all is_progress pre"
  shows "destroyed (run toString rq (pre @ [TimeoutEv]) (started p))
         \<and> settled (run toString rq (pre @ [TimeoutEv]) (started p)) =
             Rejected (FetchError ''Request timed out'' (Num 408) ''Request Timeout'')
         \<and> run toString rq (pre @ [TimeoutEv] @ later) (started p) = run toString rq (pre @ [TimeoutEv]) (started p)"
proof -
  from assms(1) have p: "p = Pending" by (rule fetch_issued_pending)
  let ?s = "run toString rq pre (started p)"
  from progress_keeps_pending [OF assms(2), of "started p" toString rq] p
  have s: "settled ?s = Pending" "\<not> destroyed ?s"
    by (simp_all add: started_def)
  let ?t = "deliver toString rq TimeoutEv ?s"
  from s have t: "destroyed ?t"
    "settled ?t = Rejected (FetchError ''Request timed out'' (Num 408) ''Request Timeout'')"
    by (simp_all add: deliver_def on_timeout_def reject_def Let_def)
  then have "run toString rq later ?t = ?t"
    by (simp add: destroyed_is_final)
  with t show ?thesis by simp
qed

theorem timeout_tears_down_witness:
  "list_all is_progress [ResponseEv 200 ''OK'', DataEv ''ab'']
   \<and> settled (run example_toString
        (the (requested (fetch example_urls (StringIn ''http://example.com/'') (Some 0)
           (initial_store(Obj 0 := [''timeout'' \<mapsto> Num 100, ''onData'' \<mapsto> Func 0])))))
        ([ResponseEv 200 ''OK'', DataEv ''ab''] @ [TimeoutEv] @ [DataEv ''cd'', EndEv])
        (started (promise_after (fetch example_urls (StringIn ''http://example.com/'') (Some 0)
           (initial_store(Obj 0 := [''timeout'' \<mapsto> Num 100, ''onData'' \<mapsto> Func 0]))))))
       = Rejected (FetchError ''Request timed out'' (Num 408) ''Request Timeout'')
   \<and> observed (run example_toString
        (the (requested (fetch example_urls (StringIn ''http://example.com/'') (Some 0)
           (initial_store(Obj 0 := [''timeout'' \<mapsto> Num 100, ''onData'' \<mapsto> Func 0])))))
        ([ResponseEv 200 ''OK'', DataEv ''ab''] @ [TimeoutEv] @ [DataEv ''cd'', EndEv])
        (started (promise_after (fetch example_urls (StringIn ''http://example.com/'') (Some 0)
           (initial_store(Obj 0 := [''timeout'' \<mapsto> Num 100, ''onData'' \<mapsto> Func 0]))))))
       = [''ab'']"
proof -
  let ?a = "fetch example_urls (StringIn ''http://example.com/'') (Some 0)
           (initial_store(Obj 0 := [''timeout'' \<mapsto> Num 100, ''onData'' \<mapsto> Func 0]))"
  have n: "normalise [''timeout'' \<mapsto> Num 100, ''onData'' \<mapsto> Func 0]
             = Some [''timeout'' \<mapsto> Num 100, ''onData'' \<mapsto> Func 0]"
    by (rule normalise_inert) (simp_all add: get_prop_def)
  note a = caller_parts [where parse = example_urls and st = initial_store and a = 0,
                         OF example_http n]
  have h: "list_all is_progress [ResponseEv 200 ''OK'', DataEv ''ab'']"
    by simp
  from a have p: "promise_after ?a = Pending"
    by (rule fetch_issued_pending)
  have d: "truthy (onData (the (requested ?a)))" "is_function (onData (the (requested ?a)))"
    by (simp_all add: caller_requested [where parse = example_urls, OF example_http n] get_prop_def)
  have o: "observed (run example_toString (the (requested ?a)) ([ResponseEv 200 ''OK'', DataEv ''ab''] @ [TimeoutEv])
             (started (promise_after ?a))) = [''ab'']"
    by (simp add: p d started_def deliver_def on_response_def on_data_def on_timeout_def
          example_toString_def Let_def)
  from timeout_tears_down [OF a h, of example_toString "[DataEv ''cd'', EndEv]"] h o
  show ?thesis
    by simp
qed

section \<open>The path handed to the transport\<close>

text \<open>
  Claim C6 says that the path handed to the transport is always pathname, search and hash
  concatenated. The options object is built as \<^verbatim>\<open>{hostname, port, path, ..._config}\<close>: a
  \<^verbatim>\<open>path\<close> property of the config comes later and replaces the computed one. With the
  config \<^verbatim>\<open>{path: "/other"}\<close> the request for \<^verbatim>\<open>http://example.com/\<close> is issued with
  path \<^verbatim>\<open>/other\<close>.
\<close>

theorem config_path_overrides_url_path:
  "options (the (requested (fetch example_urls (StringIn ''http://example.com/'') (Some 0)
       (initial_store(Obj 0 := [''path'' \<mapsto> Str ''/other'']))))) ''path'' = Some (Str ''/other'')
   \<and> example_urls ''http://example.com/'' =
       Some \<lparr>protocol = ''http:'', hostname = ''example.com'', port = [],
             pathname = ''/'', search = [], hash = []\<rparr>"
proof -
  have n: "normalise [''path'' \<mapsto> Str ''/other''] = Some [''path'' \<mapsto> Str ''/other'']"
    by (rule normalise_inert) (simp_all add: get_prop_def)
  show ?thesis
    by (simp add: caller_requested [where parse = example_urls, OF example_http n]
          request_options_path example_http)
qed

text \<open>
  Claim C6, amended. For every call that issues a request for the URL \<open>u\<close>, when the
  config of the call has no \<^verbatim>\<open>path\<close> property of its own, the path handed to the transport
  is \<open>pathname u @ search u @ hash u\<close>; and \<^verbatim>\<open>get("http://example.com/search?q=1#frag")\<close>
  without a config issues a request with path \<^verbatim>\<open>/search?q=1#frag\<close> and method \<^verbatim>\<open>GET\<close>.
\<close>

theorem path_sent_without_override:
  assumes "fetch parse inp cfg st = (st', p, Some rq)"
      and "target_url parse inp = Some u"
      and "st' (config_ref cfg) ''path'' = None"
  shows "options rq ''path'' = Some (Str (pathname u @ search u @ hash u))
       \<and> requested (get example_urls (StringIn ''http://example.com/search?q=1#frag'') None
                      \<lparr>heap = initial_store, fresh = 0\<rparr>) \<noteq> None
       \<and> options (the (requested (get example_urls (StringIn ''http://example.com/search?q=1#frag'') None
                      \<lparr>heap = initial_store, fresh = 0\<rparr>))) ''path'' = Some (Str ''/search?q=1#frag'')
       \<and> options (the (requested (get example_urls (StringIn ''http://example.com/search?q=1#frag'') None
                      \<lparr>heap = initial_store, fresh = 0\<rparr>))) ''method'' = Some (Str ''GET'')"
proof -
  from fetch_issued [OF assms(1)] assms(2) obtain st1 c where
    st': "st' = st1(config_ref cfg := c)"
    and rq: "options rq = request_options u (request_path u) c"
    by auto
  from assms(3) st' have "c ''path'' = None"
    by simp
  then have general: "options rq ''path'' = Some (Str (pathname u @ search u @ hash u))"
    by (simp add: rq request_options_path request_path_concat)
  have scenario: "requested (get example_urls (StringIn ''http://example.com/search?q=1#frag'') None
                      \<lparr>heap = initial_store, fresh = 0\<rparr>)
        = Some \<lparr>via = Http,
                options = request_options
                   \<lparr>protocol = ''http:'', hostname = ''example.com'', port = [],
                     pathname = ''/search'', search = ''?q=1'', hash = ''#frag''\<rparr>
                   ''/search?q=1#frag'' [''method'' \<mapsto> Str ''GET''],
                silent = Undefined, onData = Undefined\<rparr>"
    by (simp add: get_def verb_def spread_method_def fetch_def config_ref_def resolve_input_def
          example_urls_def string_protocol_def convert_headers_def drain_body_def
          strip_bodyUsed_def get_prop_def request_path_def requested_def Let_def)
  show ?thesis
    by (simp add: general scenario request_options_def)
qed

theorem path_sent_without_override_witness:
  "target_url example_urls (StringIn ''http://example.com/search?q=1#frag'') =
     Some \<lparr>protocol = ''http:'', hostname = ''example.com'', port = [],
           pathname = ''/search'', search = ''?q=1'', hash = ''#frag''\<rparr>
   \<and> store_after (fetch example_urls (StringIn ''http://example.com/search?q=1#frag'') None
        initial_store) (config_ref None) ''path'' = None
   \<and> options (the (requested (fetch example_urls (StringIn ''http://example.com/search?q=1#frag'')
        None initial_store))) ''path'' = Some (Str ''/search?q=1#frag'')"
proof -
  let ?a = "fetch example_urls (StringIn ''http://example.com/search?q=1#frag'') None initial_store"
  note a = default_parts [where parse = example_urls, OF example_search]
  have u: "target_url example_urls (StringIn ''http://example.com/search?q=1#frag'') =
     Some \<lparr>protocol = ''http:'', hostname = ''example.com'', port = [],
           pathname = ''/search'', search = ''?q=1'', hash = ''#frag''\<rparr>"
    by (simp add: target_url_def example_search)
  have n: "store_after ?a (config_ref None) ''path'' = None"
    by (simp add: fetch_string [where parse = example_urls and cfg = None and st = initial_store
          and c = httpConfig, OF example_search normalise_initial] out_parts httpConfig_def)
  from path_sent_without_override [OF a u n] u n
  show ?thesis
    by simp
qed

section \<open>Inputs of no recognised shape\<close>

text \<open>
  Claim C7. For every input that is neither a string, nor a \<^verbatim>\<open>URL\<close>, nor a \<^verbatim>\<open>Request\<close>,
  whatever the config and the store, the call's Promise is rejected with
  \<^verbatim>\<open>FetchError("Invalid URL", 400, "Bad Request")\<close>, and no request is issued: the
  executor goes on after \<^verbatim>\<open>reject\<close> and throws at \<^verbatim>\<open>_url.pathname\<close>, which leaves the
  settled Promise as it is.
\<close>

theorem bad_input_rejects:
  "promise_after (fetch parse (OtherIn v) cfg st) =
     Rejected (FetchError ''Invalid URL'' (Num 400) ''Bad Request'')
   \<and> requested (fetch parse (OtherIn v) cfg st) = None"
  by (simp add: fetch_def resolve_input_def reject_def promise_after_def requested_def Let_def)

section \<open>Merging the properties of a Request\<close>

text \<open>
  Claim C8 says that the properties of a Request-like input, its own ones, are copied
  onto the config. The merge is made only for an instance of \<^verbatim>\<open>Request\<close> (line 84), and
  \<^verbatim>\<open>for ... in\<close> visits inherited enumerable properties as well as own ones. An object
  that exposes \<^verbatim>\<open>url\<close> and \<^verbatim>\<open>method\<close> without being a \<^verbatim>\<open>Request\<close> is rejected as of no
  recognised shape and its \<^verbatim>\<open>method\<close> does not reach the config; the \<^verbatim>\<open>method\<close> that a
  \<^verbatim>\<open>Request\<close> inherits, which is not a property of its own, is copied.
\<close>

theorem request_like_object_not_merged:
  "promise_after (fetch example_urls
      (OtherIn (ObjectV [''url'' \<mapsto> Str ''http://example.com/'', ''method'' \<mapsto> Str ''POST'']))
      (Some 0) (initial_store(Obj 0 := [''method'' \<mapsto> Str ''GET''])))
     = Rejected (FetchError ''Invalid URL'' (Num 400) ''Bad Request'')
   \<and> store_after (fetch example_urls
      (OtherIn (ObjectV [''url'' \<mapsto> Str ''http://example.com/'', ''method'' \<mapsto> Str ''POST'']))
      (Some 0) (initial_store(Obj 0 := [''method'' \<mapsto> Str ''GET'']))) (Obj 0) ''method''
     = Some (Str ''GET'')
   \<and> map_of (own_fields (Request ''http://example.com/'' [] [(''method'', Str ''POST'')]))
        ''method'' = None
   \<and> fst (the (resolve_input example_urls
        (RequestIn (Request ''http://example.com/'' [] [(''method'', Str ''POST'')]))
        (Obj 0) (initial_store(Obj 0 := [''method'' \<mapsto> Str ''GET''])) Pending))
        (Obj 0) ''method'' = Some (Str ''POST'')"
proof -
  have "convert_headers [''method'' \<mapsto> Str ''GET''] = [''method'' \<mapsto> Str ''GET'']"
    by (rule convert_headers_inert) (simp add: get_prop_def)
  then show ?thesis
    by (simp add: fetch_def resolve_input_def reject_def out_parts config_ref_def
          example_http enumerable_def Let_def)
qed

text \<open>
  Claim C8, amended. When the input is an instance of \<^verbatim>\<open>Request\<close>, the config object
  after line 86 holds, for every key: the Request's value when the Request has an
  enumerable property of that name, its own or else an inherited one, whose value is
  neither a function nor \<^verbatim>\<open>null\<close>/\<^verbatim>\<open>undefined\<close> (overwriting what the config had), and
  otherwise exactly what the config had before. The property names of an object are
  distinct. For an input that is not an instance of \<^verbatim>\<open>Request\<close>, whatever properties it
  exposes, nothing is copied.
\<close>

theorem request_properties_copied:
  assumes "resolve_input parse inp config st p = Some (st', p', t)"
  shows "(\<forall>r. inp = RequestIn r \<and> distinct (map fst (enumerable r)) \<longrightarrow>
            (\<forall>key. st' config key =
                (case map_of (enumerable r) key of
                   None \<Rightarrow> st config key
                 | Some v \<Rightarrow> if is_function v \<or> loosely_null v then st config key else Some v)
              \<and> map_of (enumerable r) key =
                  (case map_of (own_fields r) key of
                     Some v \<Rightarrow> Some v
                   | None \<Rightarrow> map_of ((''url'', Str (request_url r)) # inherited_fields r) key)))
       \<and> ((\<forall>r. inp \<noteq> RequestIn r) \<longrightarrow> st' = st)"
proof -
  have merged: "st' config key =
                (case map_of (enumerable r) key of
                   None \<Rightarrow> st config key
                 | Some v \<Rightarrow> if is_function v \<or> loosely_null v then st config key else Some v)"
    if "inp = RequestIn r \<and> distinct (map fst (enumerable r))" for r key
  proof -
    from that resolve_input_store [OF assms]
    have "st' config = copyProperties (st config) (enumerable r)" by simp
    with that copyProperties_lookup [of "enumerable r" "st config" key] show ?thesis by simp
  qed
  have visited: "map_of (enumerable r) key =
                  (case map_of (own_fields r) key of
                     Some v \<Rightarrow> Some v
                   | None \<Rightarrow> map_of ((''url'', Str (request_url r)) # inherited_fields r) key)"
    for r key
    by (simp add: enumerable_def map_add_def split: option.splits)
  have untouched: "st' = st" if "\<forall>r. inp \<noteq> RequestIn r"
    using that resolve_input_store [OF assms] by (cases inp) simp_all
  from merged visited untouched show ?thesis
    by blast
qed

theorem request_properties_copied_witness:
  "distinct (map fst (enumerable (Request ''http://example.com/'' [(''priority'', Str ''high'')]
       [(''method'', Str ''POST''), (''clone'', Func 0), (''integrity'', Undefined),
        (''signal'', Null), (''keepalive'', Boolean False)])))
   \<and> fst (the (resolve_input example_urls
        (RequestIn (Request ''http://example.com/'' [(''priority'', Str ''high'')]
           [(''method'', Str ''POST''), (''clone'', Func 0), (''integrity'', Undefined),
            (''signal'', Null), (''keepalive'', Boolean False)]))
        (Obj 0)
        (initial_store(Obj 0 := [''method'' \<mapsto> Str ''GET'', ''clone'' \<mapsto> Num 1, ''signal'' \<mapsto> Opaque 7]))
        Pending)) (Obj 0) ''method'' = Some (Str ''POST'')
   \<and> fst (the (resolve_input example_urls
        (RequestIn (Request ''http://example.com/'' [(''priority'', Str ''high'')]
           [(''method'', Str ''POST''), (''clone'', Func 0), (''integrity'', Undefined),
            (''signal'', Null), (''keepalive'', Boolean False)]))
        (Obj 0)
        (initial_store(Obj 0 := [''method'' \<mapsto> Str ''GET'', ''clone'' \<mapsto> Num 1, ''signal'' \<mapsto> Opaque 7]))
        Pending)) (Obj 0) ''clone'' = Some (Num 1)
   \<and> fst (the (resolve_input example_urls
        (RequestIn (Request ''http://example.com/'' [(''priority'', Str ''high'')]
           [(''method'', Str ''POST''), (''clone'', Func 0), (''integrity'', Undefined),
            (''signal'', Null), (''keepalive'', Boolean False)]))
        (Obj 0)
        (initial_store(Obj 0 := [''method'' \<mapsto> Str ''GET'', ''clone'' \<mapsto> Num 1, ''signal'' \<mapsto> Opaque 7]))
        Pending)) (Obj 0) ''priority'' = Some (Str ''high'')"
proof -
  let ?r = "Request ''http://example.com/'' [(''priority'', Str ''high'')]
       [(''method'', Str ''POST''), (''clone'', Func 0), (''integrity'', Undefined),
        (''signal'', Null), (''keepalive'', Boolean False)]"
  let ?st = "initial_store(Obj 0 := [''method'' \<mapsto> Str ''GET'', ''clone'' \<mapsto> Num 1, ''signal'' \<mapsto> Opaque 7])"
  have d: "distinct (map fst (enumerable ?r))"
    by (simp add: enumerable_def)
  obtain st' p t where r: "resolve_input example_urls (RequestIn ?r) (Obj 0) ?st Pending = Some (st', p, t)"
    by (simp add: resolve_input_def example_urls_def)
  from request_properties_copied [OF r] d
  have k: "st' (Obj 0) key =
            (case map_of (enumerable ?r) key of
               None \<Rightarrow> ?st (Obj 0) key
             | Some v \<Rightarrow> if is_function v \<or> loosely_null v then ?st (Obj 0) key else Some v)"
    for key
    by blast
  from k [of "''method''"] k [of "''clone''"] k [of "''priority''"] r d
  show ?thesis
    by (simp add: enumerable_def)
qed

section \<open>Headers objects\<close>

text \<open>
  Claim C9 says that a \<^verbatim>\<open>headers\<close> value is converted to a plain mapping with exactly
  the same pairs whenever it is any object exposing \<^verbatim>\<open>entries()\<close>. The code converts
  only what is \<^verbatim>\<open>instanceof Headers\<close>: a \<^verbatim>\<open>Map\<close> of header pairs, which exposes
  \<^verbatim>\<open>entries()\<close> too, is handed to the transport as it is. And of the pairs of a
  \<^verbatim>\<open>Headers\<close> object whose \<^verbatim>\<open>entries()\<close> yields a name twice, as it does for
  \<^verbatim>\<open>set-cookie\<close>, \<^verbatim>\<open>Object.fromEntries\<close> keeps the last only: the pair
  (\<^verbatim>\<open>set-cookie\<close>, \<^verbatim>\<open>a=1\<close>) is not in the mapping.
\<close>

theorem map_headers_not_converted:
  "options (the (requested (fetch example_urls (StringIn ''http://example.com/'') (Some 0)
       (initial_store(Obj 0 := [''headers'' \<mapsto> MapObj [(''accept'', ''text/html'')]])))))
     ''headers'' = Some (MapObj [(''accept'', ''text/html'')])
   \<and> options (the (requested (fetch example_urls (StringIn ''http://example.com/'') (Some 0)
       (initial_store(Obj 0 :=
          [''headers'' \<mapsto> HeadersObj [(''set-cookie'', ''a=1''), (''set-cookie'', ''b=2'')]])))))
     ''headers'' = Some (Plain [''set-cookie'' \<mapsto> ''b=2''])
   \<and> [''set-cookie'' \<mapsto> ''b=2''] ''set-cookie'' \<noteq> Some ''a=1''"
proof -
  have n: "normalise [''headers'' \<mapsto> MapObj [(''accept'', ''text/html'')]]
          = Some [''headers'' \<mapsto> MapObj [(''accept'', ''text/html'')]]"
    by (rule normalise_inert) (simp_all add: get_prop_def)
  let ?c = "[''headers'' \<mapsto> HeadersObj [(''set-cookie'', ''a=1''), (''set-cookie'', ''b=2'')]]"
  have "\<forall>stream. get_prop ?c ''body'' \<noteq> StreamObj stream"
    by (simp add: get_prop_def)
  note m = normalise_no_stream [OF this]
  have "get_prop ?c ''headers'' = HeadersObj [(''set-cookie'', ''a=1''), (''set-cookie'', ''b=2'')]"
    by (simp add: get_prop_def)
  from normalise_headers [OF m this]
  have h: "strip_bodyUsed (convert_headers ?c) ''headers'' = Some (Plain [''set-cookie'' \<mapsto> ''b=2''])"
    by (simp add: fromEntries_def)
  show ?thesis
    by (simp add: caller_requested [where parse = example_urls, OF example_http n]
          caller_requested [where parse = example_urls, OF example_http m]
          request_options_headers h)
qed

text \<open>
  Claim C9, amended. For every call that issues a request: when its config, after the
  properties of a \<^verbatim>\<open>Request\<close> input have been merged, carries as \<^verbatim>\<open>headers\<close> an instance of
  \<^verbatim>\<open>Headers\<close>, the headers handed to the transport are a plain mapping that holds, for
  each name \<^verbatim>\<open>entries()\<close> yields, the value of the last pair with that name, which are
  exactly the pairs yielded when every name is yielded once; when the \<^verbatim>\<open>headers\<close> of that
  config are not an instance of \<^verbatim>\<open>Headers\<close>, whatever they expose, they are handed to
  the transport as they are.
\<close>

theorem headers_instance_converted:
  assumes "fetch parse inp cfg st = (st', p, Some rq)"
      and "resolve_input parse inp (config_ref cfg) st Pending = Some (st1, p1, t)"
  shows "(\<forall>es. get_prop (st1 (config_ref cfg)) ''headers'' = HeadersObj es \<longrightarrow>
            options rq ''headers'' = Some (Plain (fromEntries es))
          \<and> (\<forall>name. fromEntries es name = map_of (rev es) name)
          \<and> (distinct (map fst es) \<longrightarrow>
               (\<forall>name v. fromEntries es name = Some v \<longleftrightarrow> (name, v) \<in> set es)))
       \<and> ((\<forall>es. get_prop (st1 (config_ref cfg)) ''headers'' \<noteq> HeadersObj es) \<longrightarrow>
            options rq ''headers'' = st1 (config_ref cfg) ''headers'')"
proof -
  from fetch_issued [OF assms(1)] assms(2) obtain u c where
    n: "normalise (st1 (config_ref cfg)) = Some c"
    and rq: "options rq = request_options u (request_path u) c"
    by auto
  have converted: "options rq ''headers'' = Some (Plain (fromEntries es))"
    if "get_prop (st1 (config_ref cfg)) ''headers'' = HeadersObj es" for es
    using normalise_headers [OF n that] by (simp add: rq request_options_headers)
  have last_pair: "fromEntries es name = map_of (rev es) name" for es name
    by (simp add: fromEntries_map_of)
  have same_pairs: "fromEntries es name = Some v \<longleftrightarrow> (name, v) \<in> set es"
    if "distinct (map fst es)" for es name v
    using that by (rule fromEntries_pairs)
  have as_it_is: "options rq ''headers'' = st1 (config_ref cfg) ''headers''"
    if "\<forall>es. get_prop (st1 (config_ref cfg)) ''headers'' \<noteq> HeadersObj es"
  proof -
    from normaliseD [OF n] obtain d where
      d: "drain_body (convert_headers (st1 (config_ref cfg))) = Some d"
      and c: "c = strip_bodyUsed d"
      by blast
    from that have "convert_headers (st1 (config_ref cfg)) = st1 (config_ref cfg)"
      by (rule convert_headers_inert)
    with drain_body_other [OF d, of "''headers''"] c
    have "c ''headers'' = st1 (config_ref cfg) ''headers''"
      by (simp add: strip_bodyUsed_other)
    then show ?thesis
      by (simp add: rq request_options_headers)
  qed
  from converted last_pair same_pairs as_it_is show ?thesis
    by blast
qed

theorem headers_instance_converted_witness:
  "distinct (map fst [(''accept'', ''text/html''), (''x-id'', ''7'')])
   \<and> options (the (requested (fetch example_urls
        (RequestIn (Request ''https://example.com/'' []
           [(''headers'', HeadersObj [(''accept'', ''text/html''), (''x-id'', ''7'')])]))
        (Some 0) initial_store))) ''headers''
       = Some (Plain (fromEntries [(''accept'', ''text/html''), (''x-id'', ''7'')]))
   \<and> fromEntries [(''accept'', ''text/html''), (''x-id'', ''7'')] ''x-id'' = Some ''7''"
proof -
  let ?r = "Request ''https://example.com/'' []
           [(''headers'', HeadersObj [(''accept'', ''text/html''), (''x-id'', ''7'')])]"
  let ?es = "[(''accept'', ''text/html''), (''x-id'', ''7'')]"
  let ?a = "fetch example_urls (RequestIn ?r) (Some 0) initial_store"
  have u: "example_urls (request_url ?r) = Some \<lparr>protocol = ''https:'', hostname = ''example.com'',
             port = [], pathname = ''/'', search = [], hash = []\<rparr>"
    by (simp add: example_https)
  have "\<forall>stream. get_prop (copyProperties (initial_store (config_ref (Some 0))) (enumerable ?r))
            ''body'' \<noteq> StreamObj stream"
    by (simp add: config_ref_def initial_store_def enumerable_def get_prop_def)
  note n = normalise_no_stream [OF this]
  note a = fetch_request_parts [where parse = example_urls and r = ?r and cfg = "Some 0"
      and st = initial_store, OF u n]
  have r: "resolve_input example_urls (RequestIn ?r) (config_ref (Some 0)) initial_store Pending =
             Some (initial_store(Obj 0 := copyProperties (initial_store (Obj 0)) (enumerable ?r)),
                   Pending, Some (\<lparr>protocol = ''https:'', hostname = ''example.com'',
             port = [], pathname = ''/'', search = [], hash = []\<rparr>, Https))"
    by (simp add: resolve_input_def example_https config_ref_def startsWith_def)
  have h: "get_prop ((initial_store(Obj 0 := copyProperties (initial_store (Obj 0)) (enumerable ?r)))
             (config_ref (Some 0))) ''headers'' = HeadersObj ?es"
    by (simp add: config_ref_def enumerable_def get_prop_def)
  have d: "distinct (map fst ?es)"
    by simp
  note T = headers_instance_converted [OF a r]
  from T h have 1: "options (the (requested ?a)) ''headers'' = Some (Plain (fromEntries ?es))"
    by blast
  from T h d have "fromEntries ?es ''x-id'' = Some ''7'' \<longleftrightarrow> (''x-id'', ''7'') \<in> set ?es"
    by blast
  then have 2: "fromEntries ?es ''x-id'' = Some ''7''"
    by simp
  from 1 2 d show ?thesis by simp
qed

section \<open>The caller's config object\<close>



end
